theory Spec2Isabelle
  imports Complex_Main
begin

section \<open>JavaScript values used by the recorder\<close>

text \<open>
  The recorder (\<^verbatim>\<open>src/index.js\<close>) compares raw store replies with \<^verbatim>\<open>==\<close>,
  \<^verbatim>\<open>!=\<close>, \<^verbatim>\<open>===\<close> and \<^verbatim>\<open>!==\<close>, tests them for truthiness and feeds them to
  \<^verbatim>\<open>parseFloat\<close>. The values that occur are \<^verbatim>\<open>null\<close>, \<^verbatim>\<open>undefined\<close>, strings
  (every Redis reply) and numbers (results of \<^verbatim>\<open>parseFloat\<close> and of the distance
  library, literals, and columns an ORM may hand back as numbers).

  A JavaScript number is modelled as an exact real, one of the two infinities, or NaN.
  Rounding of IEEE doubles and the sign of zero are not modelled: no comparison in the
  recorder distinguishes \<^verbatim>\<open>-0\<close> from \<^verbatim>\<open>0\<close>.
\<close>

datatype jsnum = NaN | NegInf | Fin real | PosInf

datatype jsval = JNull | JUndefined | JStr string | JNum jsnum

text \<open>Equality of two numbers: NaN is equal to nothing, itself included.\<close>

fun num_eq :: "jsnum \<Rightarrow> jsnum \<Rightarrow> bool" where
  "num_eq NaN _ = False"
| "num_eq _ NaN = False"
| "num_eq a b = (a = b)"

text \<open>The relational operator \<^verbatim>\<open><\<close> on two numbers: false as soon as one is NaN.\<close>

fun js_lt :: "jsnum \<Rightarrow> jsnum \<Rightarrow> bool" where
  "js_lt NaN _ = False"
| "js_lt _ NaN = False"
| "js_lt (Fin a) (Fin b) = (a < b)"
| "js_lt NegInf NegInf = False"
| "js_lt NegInf _ = True"
| "js_lt _ NegInf = False"
| "js_lt PosInf _ = False"
| "js_lt _ PosInf = True"

text \<open>The product of two numbers; an infinity times zero is NaN.\<close>

definition inf_of_sign :: "real \<Rightarrow> jsnum" where
  "inf_of_sign s = (if s = 0 then NaN else if 0 < s then PosInf else NegInf)"

fun js_mul :: "jsnum \<Rightarrow> jsnum \<Rightarrow> jsnum" where
  "js_mul NaN _ = NaN"
| "js_mul _ NaN = NaN"
| "js_mul (Fin a) (Fin b) = Fin (a * b)"
| "js_mul (Fin a) PosInf = inf_of_sign a"
| "js_mul (Fin a) NegInf = inf_of_sign (- a)"
| "js_mul PosInf (Fin b) = inf_of_sign b"
| "js_mul NegInf (Fin b) = inf_of_sign (- b)"
| "js_mul PosInf PosInf = PosInf"
| "js_mul NegInf NegInf = PosInf"
| "js_mul PosInf NegInf = NegInf"
| "js_mul NegInf PosInf = NegInf"

text \<open>Strict equality \<^verbatim>\<open>===\<close>: same type and same value.\<close>

fun strict_eq :: "jsval \<Rightarrow> jsval \<Rightarrow> bool" where
  "strict_eq JNull JNull = True"
| "strict_eq JUndefined JUndefined = True"
| "strict_eq (JStr s) (JStr t) = (s = t)"
| "strict_eq (JNum a) (JNum b) = num_eq a b"
| "strict_eq _ _ = False"

text \<open>
  Loose equality \<^verbatim>\<open>==\<close>: \<^verbatim>\<open>null\<close> and \<^verbatim>\<open>undefined\<close> are equal to each other and
  to nothing else; a string compared with a number is first converted by ToNumber, which
  is the parameter \<open>tonum\<close>.
\<close>

fun loose_eq :: "(string \<Rightarrow> jsnum) \<Rightarrow> jsval \<Rightarrow> jsval \<Rightarrow> bool" where
  "loose_eq tonum JNull JNull = True"
| "loose_eq tonum JNull JUndefined = True"
| "loose_eq tonum JUndefined JNull = True"
| "loose_eq tonum JUndefined JUndefined = True"
| "loose_eq tonum (JStr s) (JStr t) = (s = t)"
| "loose_eq tonum (JNum a) (JNum b) = num_eq a b"
| "loose_eq tonum (JNum a) (JStr t) = num_eq a (tonum t)"
| "loose_eq tonum (JStr s) (JNum b) = num_eq (tonum s) b"
| "loose_eq tonum _ _ = False"

text \<open>Truthiness, as tested by \<^verbatim>\<open>if (v)\<close> and \<^verbatim>\<open>!v\<close>.\<close>

fun truthy :: "jsval \<Rightarrow> bool" where
  "truthy JNull = False"
| "truthy JUndefined = False"
| "truthy (JStr s) = (s \<noteq> [])"
| "truthy (JNum n) = (n \<noteq> NaN \<and> n \<noteq> Fin 0)"

section \<open>Configuration and library functions\<close>

text \<open>
  What the recorder takes from outside this repository: ToNumber on strings (used by
  \<^verbatim>\<open>==\<close>), the global \<^verbatim>\<open>parseFloat\<close>, the function exported by the package
  \<^verbatim>\<open>gps-distance\<close> (kilometres between two positions in degrees), and the two options
  \<^verbatim>\<open>minTravelDistanceM\<close> and \<^verbatim>\<open>interval\<close> read with \<^verbatim>\<open>config.get\<close>.
\<close>

record env =
  ToNumber :: "string \<Rightarrow> jsnum"
  parseFloat :: "jsval \<Rightarrow> jsnum"
  gpsDistance :: "jsnum \<Rightarrow> jsnum \<Rightarrow> jsnum \<Rightarrow> jsnum \<Rightarrow> jsnum"
  minTravelDistanceM :: jsnum
  interval :: nat

section \<open>Data model\<close>

text \<open>The keys of \<^verbatim>\<open>REDIS_KEYS\<close> (lines 27-47) and of \<^verbatim>\<open>PERS_REDIS_KEYS\<close> (lines 48-52).\<close>

datatype redis_key =
    K_gpsAlive | K_obdAlive | K_latitude | K_longitude | K_altitude | K_fixMode
  | K_gpsTime | K_gpsSpeed | K_gpsSpeedKMH | K_gpsAccuracyLon | K_gpsAccuracyLat
  | K_gpsAccuracyHeight | K_gpsAccuracySpeed | K_obdSpeedKMH | K_engineRpm
  | K_intakeTemp | K_intakeMAP | K_recordTripIDA | K_recordTripIDB

datatype pers_key = P_odo | P_tripA | P_tripB

text \<open>
  The object \<^verbatim>\<open>o\<close> that \<^verbatim>\<open>getCurrentData\<close> fills with one reply per key of
  \<^verbatim>\<open>REDIS_KEYS\<close>.
\<close>

type_synonym snapshot = "redis_key \<Rightarrow> jsval"

text \<open>The object built by \<^verbatim>\<open>transformIntoTripPoint\<close> (lines 72-87).\<close>

record point =
  tripID :: jsval
  latitude :: jsval
  longitude :: jsval
  altitude :: jsval
  fixMode :: jsval
  gpsSpeed :: jsval
  accuracyLat :: jsval
  accuracyLon :: jsval
  accuracyAlt :: jsval
  accuracySpd :: jsval
  vehicleSpeed :: jsval
  vehicleIntakeTemp :: jsval
  vehicleIntakeMAP :: jsval
  vehicleRPM :: jsval

text \<open>
  A row of the \<^verbatim>\<open>Trip\<close> model. The model itself is not part of the sources at hand; the
  recorder reads exactly one property of it, \<^verbatim>\<open>tripID\<close>.
\<close>

datatype trip = Trip (trip_tripID: jsval)

text \<open>The two module-level variables of lines 136-137.\<close>

record rec_state =
  recordingTripA :: "trip option"
  lastRecordedDataA :: "point option"

datatype js_error = TypeError

section \<open>The functions of \<^verbatim>\<open>src/index.js\<close>\<close>

text \<open>\<^verbatim>\<open>replaceNaN\<close> (lines 119-124): every property that is \<^verbatim>\<open>=== 'nan'\<close> becomes \<^verbatim>\<open>null\<close>.\<close>

definition nanToNull :: "jsval \<Rightarrow> jsval" where
  "nanToNull v = (if strict_eq v (JStr ''nan'') then JNull else v)"

definition replaceNaN :: "point \<Rightarrow> point" where
  "replaceNaN p =
     \<lparr> tripID = nanToNull (tripID p),
       latitude = nanToNull (latitude p),
       longitude = nanToNull (longitude p),
       altitude = nanToNull (altitude p),
       fixMode = nanToNull (fixMode p),
       gpsSpeed = nanToNull (gpsSpeed p),
       accuracyLat = nanToNull (accuracyLat p),
       accuracyLon = nanToNull (accuracyLon p),
       accuracyAlt = nanToNull (accuracyAlt p),
       accuracySpd = nanToNull (accuracySpd p),
       vehicleSpeed = nanToNull (vehicleSpeed p),
       vehicleIntakeTemp = nanToNull (vehicleIntakeTemp p),
       vehicleIntakeMAP = nanToNull (vehicleIntakeMAP p),
       vehicleRPM = nanToNull (vehicleRPM p) \<rparr>"

text \<open>\<^verbatim>\<open>transformIntoTripPoint\<close> (lines 71-89).\<close>

definition transformIntoTripPoint :: "jsval \<Rightarrow> snapshot \<Rightarrow> point" where
  "transformIntoTripPoint tid o' =
     replaceNaN
       \<lparr> tripID = tid,
         latitude = o' K_latitude,
         longitude = o' K_longitude,
         altitude = o' K_altitude,
         fixMode = o' K_fixMode,
         gpsSpeed = o' K_gpsSpeed,
         accuracyLat = o' K_gpsAccuracyLat,
         accuracyLon = o' K_gpsAccuracyLon,
         accuracyAlt = o' K_gpsAccuracyHeight,
         accuracySpd = o' K_gpsAccuracySpeed,
         vehicleSpeed = o' K_obdSpeedKMH,
         vehicleIntakeTemp = o' K_intakeTemp,
         vehicleIntakeMAP = o' K_intakeMAP,
         vehicleRPM = o' K_engineRpm \<rparr>"

text \<open>The comparison \<^verbatim>\<open>v == 0\<close> of lines 95 and 98.\<close>

definition eq_zero :: "env \<Rightarrow> jsval \<Rightarrow> bool" where
  "eq_zero e v = loose_eq (ToNumber e) v (JNum (Fin 0))"

text \<open>
  The expression of lines 109-111 and 128-130:
  \<^verbatim>\<open>gpsDistance(parseFloat(prev.latitude), parseFloat(prev.longitude),
  parseFloat(current.latitude), parseFloat(current.longitude)) * 1000\<close>.
\<close>

definition distanceM :: "env \<Rightarrow> point \<Rightarrow> point \<Rightarrow> jsnum" where
  "distanceM e prev current =
     js_mul
       (gpsDistance e (parseFloat e (latitude prev)) (parseFloat e (longitude prev))
          (parseFloat e (latitude current)) (parseFloat e (longitude current)))
       (Fin 1000)"

text \<open>
  \<^verbatim>\<open>pointNeedsUpdate\<close> (lines 91-117). An absent argument (\<^verbatim>\<open>== null\<close>) is \<open>None\<close>.
  Reading a property of an absent argument throws a TypeError: line 98 reads
  \<^verbatim>\<open>current.latitude\<close> and line 101 reads \<^verbatim>\<open>prev.vehicleSpeed\<close> without a guard.
\<close>

definition pointNeedsUpdate :: "env \<Rightarrow> point option \<Rightarrow> point option \<Rightarrow> js_error + bool" where
  "pointNeedsUpdate e prev current =
     (if prev = None \<and> current = None then Inr False
      else
        (case current of
           None \<Rightarrow> Inl TypeError
         | Some c \<Rightarrow>
             if prev = None \<and> \<not> eq_zero e (latitude c) \<and> \<not> eq_zero e (longitude c)
             then Inr True
             else if eq_zero e (latitude c) \<and> eq_zero e (longitude c) then Inr False
             else
               (case prev of
                  None \<Rightarrow> Inl TypeError
                | Some p \<Rightarrow>
                    if \<not> strict_eq (vehicleSpeed p) (vehicleSpeed c) then Inr True
                    else if strict_eq (latitude p) (latitude c)
                          \<and> strict_eq (longitude p) (longitude c) then Inr False
                    else if js_lt (distanceM e p c) (minTravelDistanceM e) then Inr False
                    else Inr True)))"

text \<open>
  What a cycle does to the outside world, in order: log lines written with
  \<^verbatim>\<open>logError\<close>, calls on the two repositories, writes to the live and to the persistent
  store, an exception that nothing catches, and \<^verbatim>\<open>setTimeout(run, interval)\<close>.
\<close>

datatype log_msg =
    FetchFailed  \<comment> \<open>\<^verbatim>\<open>Error while getting current data from REDIS:\<close> (line 142)\<close>
  | TripCreateFailed jsval  \<comment> \<open>\<^verbatim>\<open>Failed to create Trip ${o.recordTripIDA}: \<close> (line 171)\<close>
  | PointCreateFailed  \<comment> \<open>\<^verbatim>\<open>Failed to create Point\<close> (lines 167 and 183)\<close>

datatype effect =
    LogError log_msg
  | TripFindOrCreate jsval
  | LiveSet redis_key jsval
  | PersSet redis_key jsval
  | PointCreate point
  | IncrByFloat pers_key jsnum
  | Uncaught js_error
  | SetTimeout nat

text \<open>
  \<^verbatim>\<open>updateOdoMeters\<close> (lines 126-134), as the list of commands it sends to the
  persistent store. Its only caller passes the row just created as \<^verbatim>\<open>current\<close>.
\<close>

definition updateOdoMeters :: "env \<Rightarrow> point option \<Rightarrow> point \<Rightarrow> effect list" where
  "updateOdoMeters e prev current =
     (case prev of
        None \<Rightarrow> []
      | Some p \<Rightarrow>
          (let mDistance = distanceM e p current
           in [IncrByFloat P_odo mDistance,
               IncrByFloat P_tripA mDistance,
               IncrByFloat P_tripB mDistance]))"

text \<open>
  What the collaborators answer during one cycle: \<^verbatim>\<open>getCurrentData\<close> calls back with
  an error or with the filled object; \<^verbatim>\<open>Trip.findOrCreate\<close> and \<^verbatim>\<open>TripPoint.create\<close>
  return promises that are rejected with an error or fulfilled with a row.
\<close>

record responses =
  fetched :: "string + snapshot"
  foundTrip :: "string + trip"
  created :: "string + point"

text \<open>
  The chain \<^verbatim>\<open>TripPoint.create(point).then(...).catch(...)\<close>, written out twice in the
  source (lines 159-169 and 175-185) with the same body.
\<close>

definition createPoint :: "env \<Rightarrow> rec_state \<Rightarrow> point \<Rightarrow> string + point \<Rightarrow> rec_state \<times> effect list" where
  "createPoint e st pt res =
     (case res of
        Inr p \<Rightarrow>
          (st\<lparr>lastRecordedDataA := Some p\<rparr>,
           [PointCreate pt] @ updateOdoMeters e (lastRecordedDataA st) p
             @ [SetTimeout (interval e)])
      | Inl err \<Rightarrow>
          (st, [PointCreate pt, LogError PointCreateFailed, SetTimeout (interval e)]))"

text \<open>
  One invocation of \<^verbatim>\<open>run\<close> (lines 139-197), up to the point where every callback of
  the cycle has finished: the new recording state and the effects, in order.
\<close>

definition run :: "env \<Rightarrow> rec_state \<Rightarrow> responses \<Rightarrow> rec_state \<times> effect list" where
  "run e st r =
     (case fetched r of
        Inl err \<Rightarrow> (st, [LogError FetchFailed])
      | Inr o' \<Rightarrow>
          if truthy (o' K_gpsAlive) then
            if truthy (o' K_recordTripIDA) then
              (let st1 =
                     (case recordingTripA st of
                        Some t \<Rightarrow>
                          if \<not> loose_eq (ToNumber e) (o' K_recordTripIDA) (trip_tripID t)
                          then st\<lparr>recordingTripA := None\<rparr> else st
                      | None \<Rightarrow> st);
                   pt = transformIntoTripPoint
                          (case recordingTripA st1 of Some t \<Rightarrow> trip_tripID t | None \<Rightarrow> JNull) o'
               in
                 (case (case lastRecordedDataA st1 of
                          None \<Rightarrow> Inr True
                        | Some l \<Rightarrow> pointNeedsUpdate e (Some l) (Some pt)) of
                    Inl exn \<Rightarrow> (st1, [Uncaught exn])
                  | Inr True \<Rightarrow>
                      (case recordingTripA st1 of
                         None \<Rightarrow>
                           (case foundTrip r of
                              Inr t \<Rightarrow>
                                (let (st2, effs) =
                                       createPoint e (st1\<lparr>recordingTripA := Some t\<rparr>)
                                         (pt\<lparr>tripID := trip_tripID t\<rparr>) (created r)
                                 in (st2,
                                     [TripFindOrCreate (o' K_recordTripIDA),
                                      LiveSet K_recordTripIDA (trip_tripID t),
                                      PersSet K_recordTripIDA (trip_tripID t)] @ effs))
                            | Inl err \<Rightarrow>
                                (st1,
                                 [TripFindOrCreate (o' K_recordTripIDA),
                                  LogError (TripCreateFailed (o' K_recordTripIDA)),
                                  SetTimeout (interval e)]))
                       | Some t \<Rightarrow> createPoint e st1 pt (created r))
                  | Inr False \<Rightarrow> (st1, [SetTimeout (interval e)])))
            else (st, [SetTimeout (interval e)])
          else (st, [SetTimeout (interval e)]))"

section \<open>Concrete inputs\<close>

text \<open>
  An instance of the outside world, used to evaluate the functions above on concrete
  inputs. \<open>demo_ToNumber\<close> is ToNumber on the few decimal strings that occur below;
  \<open>demo_parseFloat\<close> agrees with \<^verbatim>\<open>parseFloat\<close> on those strings, on numbers and on
  \<^verbatim>\<open>null\<close>; \<open>demo_gpsDistance\<close> stands in for the distance package with 100 km per
  degree along each axis. The minimum travel distance is the documented default of 10
  metres.
\<close>

definition demo_ToNumber :: "string \<Rightarrow> jsnum" where
  "demo_ToNumber s =
     (if s = ''0'' then Fin 0
      else if s = ''0.001'' then Fin (1 / 1000)
      else if s = ''8'' then Fin 8
      else if s = ''47'' then Fin 47
      else if s = ''47.0001'' then Fin (470001 / 10000)
      else NaN)"

definition demo_parseFloat :: "jsval \<Rightarrow> jsnum" where
  "demo_parseFloat v = (case v of JStr s \<Rightarrow> demo_ToNumber s | JNum n \<Rightarrow> n | _ \<Rightarrow> NaN)"

definition demo_gpsDistance :: "jsnum \<Rightarrow> jsnum \<Rightarrow> jsnum \<Rightarrow> jsnum \<Rightarrow> jsnum" where
  "demo_gpsDistance lat1 lon1 lat2 lon2 =
     (case (lat1, lon1, lat2, lon2) of
        (Fin a, Fin b, Fin c, Fin d) \<Rightarrow> Fin (100 * (\<bar>c - a\<bar> + \<bar>d - b\<bar>))
      | _ \<Rightarrow> NaN)"

definition demo_env :: env where
  "demo_env =
     \<lparr> ToNumber = demo_ToNumber, parseFloat = demo_parseFloat,
       gpsDistance = demo_gpsDistance, minTravelDistanceM = Fin 10, interval = 1000 \<rparr>"

text \<open>A trip point with the given trip identifier, latitude, longitude and vehicle speed.\<close>

definition demo_point :: "string \<Rightarrow> string \<Rightarrow> string \<Rightarrow> string \<Rightarrow> point" where
  "demo_point tid lat lon spd =
     \<lparr> tripID = JStr tid, latitude = JStr lat, longitude = JStr lon, altitude = JNull,
       fixMode = JNull, gpsSpeed = JNull, accuracyLat = JNull, accuracyLon = JNull,
       accuracyAlt = JNull, accuracySpd = JNull, vehicleSpeed = JStr spd,
       vehicleIntakeTemp = JNull, vehicleIntakeMAP = JNull, vehicleRPM = JNull \<rparr>"

text \<open>
  A snapshot with the given liveness flag, requested trip identifier, latitude, longitude
  and vehicle speed; every other key is \<^verbatim>\<open>null\<close>.
\<close>

definition demo_snapshot :: "jsval \<Rightarrow> jsval \<Rightarrow> string \<Rightarrow> string \<Rightarrow> string \<Rightarrow> snapshot" where
  "demo_snapshot alive tid lat lon spd k =
     (if k = K_gpsAlive then alive
      else if k = K_recordTripIDA then tid
      else if k = K_latitude then JStr lat
      else if k = K_longitude then JStr lon
      else if k = K_obdSpeedKMH then JStr spd
      else JNull)"

definition demo_state :: "jsval option \<Rightarrow> point option \<Rightarrow> rec_state" where
  "demo_state tid lastp = \<lparr> recordingTripA = map_option Trip tid, lastRecordedDataA = lastp \<rparr>"

section \<open>Auxiliary facts\<close>

lemmas demo_defs =
  demo_ToNumber_def demo_parseFloat_def demo_gpsDistance_def demo_env_def demo_point_def
  demo_snapshot_def demo_state_def

lemmas eval_defs =
  run_def createPoint_def updateOdoMeters_def distanceM_def pointNeedsUpdate_def
  transformIntoTripPoint_def replaceNaN_def nanToNull_def eq_zero_def Let_def

text \<open>With both arguments present, \<^verbatim>\<open>pointNeedsUpdate\<close> reads no property of \<^verbatim>\<open>null\<close>.\<close>

lemma pointNeedsUpdate_no_throw [simp]:
  "pointNeedsUpdate e (Some l) (Some c) \<noteq> Inl x"
  by (auto simp add: pointNeedsUpdate_def)

lemma js_lt_irrefl [simp]: "\<not> js_lt x x"
  by (cases x) simp_all

lemma createPoint_issues: "PointCreate pt \<in> set (snd (createPoint e st pt res))"
  by (cases res) (simp_all add: createPoint_def)

lemma createPoint_ok_last: "lastRecordedDataA (fst (createPoint e st pt (Inr p))) = Some p"
  by (simp add: createPoint_def)

lemma transform_position:
  "latitude (transformIntoTripPoint tid o') = nanToNull (o' K_latitude)"
  "longitude (transformIntoTripPoint tid o') = nanToNull (o' K_longitude)"
  by (simp_all add: transformIntoTripPoint_def replaceNaN_def)

text \<open>
  Once the snapshot has been fetched, every path through \<^verbatim>\<open>run\<close> ends in
  \<^verbatim>\<open>setTimeout(run, interval)\<close>: the two inactive branches, the branch where the
  predicate says no, a rejected \<^verbatim>\<open>Trip.findOrCreate\<close>, and a fulfilled or rejected
  \<^verbatim>\<open>TripPoint.create\<close>. In particular no cycle ends in an uncaught exception.
\<close>

lemma run_fetched_reschedules:
  assumes "fetched r = Inr o'"
  shows "SetTimeout (interval e) \<in> set (snd (run e st r))"
  using assms
  by (auto simp add: run_def Let_def createPoint_def
      split: option.splits sum.splits bool.splits prod.splits)

section \<open>The polling loop\<close>

text \<open>
  Claim C1 says that every exit path of a cycle, the snapshot-fetch error included,
  schedules the next cycle. The code does not do so on a fetch error: lines 141-143 log
  the error and return, and nothing calls \<^verbatim>\<open>setTimeout\<close>. Whatever the recording state
  and whatever the other collaborators would have answered, a cycle whose fetch fails
  leaves the state as it was, writes one log line and schedules nothing.
\<close>

theorem run_fetch_error_stops_loop:
  "run e st (r\<lparr>fetched := Inl err\<rparr>) = (st, [LogError FetchFailed])
   \<and> SetTimeout (interval e) \<notin> set (snd (run e st (r\<lparr>fetched := Inl err\<rparr>)))"
  by (simp add: run_def)

theorem run_fetch_error_stops_loop_witness:
  "run demo_env (demo_state None None)
     \<lparr> fetched = Inl ''connection lost'', foundTrip = Inr (Trip (JStr ''a'')),
       created = Inr (demo_point ''a'' ''47'' ''8'' ''10'') \<rparr>
   = (demo_state None None, [LogError FetchFailed])"
  using run_fetch_error_stops_loop
    [where e = demo_env and st = "demo_state None None" and err = "''connection lost''"
       and r = "\<lparr> fetched = Inl ''connection lost'', foundTrip = Inr (Trip (JStr ''a'')),
           created = Inr (demo_point ''a'' ''47'' ''8'' ''10'') \<rparr>"]
  by simp

text \<open>
  Claim C2 says that a change of the requested trip identifier resets the active trip
  and the last persisted point together, so that the first snapshot of the new trip is
  recorded whenever it is a valid non-zero fix. Line 146 resets \<^verbatim>\<open>recordingTripA\<close> only.
  Here trip \<^verbatim>\<open>a\<close> is active with a last point at (47, 8) and speed 10, the store now
  asks for trip \<^verbatim>\<open>b\<close>, and the snapshot has the same position and speed: the last point
  is still that of trip \<^verbatim>\<open>a\<close> after the cycle, and nothing was recorded.
\<close>

theorem trip_change_keeps_last_point_counterexample:
  "run demo_env
     (demo_state (Some (JStr ''a'')) (Some (demo_point ''a'' ''47'' ''8'' ''10'')))
     \<lparr> fetched = Inr (demo_snapshot (JStr ''1'') (JStr ''b'') ''47'' ''8'' ''10''),
       foundTrip = Inr (Trip (JStr ''b'')),
       created = Inr (demo_point ''b'' ''47'' ''8'' ''10'') \<rparr>
   = (demo_state None (Some (demo_point ''a'' ''47'' ''8'' ''10'')), [SetTimeout 1000])"
  by (simp add: eval_defs demo_defs)

text \<open>
  Claim C2, amended. When the requested trip identifier differs (\<^verbatim>\<open>!=\<close>) from the
  active trip's, the cycle behaves exactly as it would with no active trip and the same
  last persisted point: the active trip is reset before any decision, the last point is
  kept. The predicate is therefore evaluated against the old trip's last point. If it
  says no, the cycle only reschedules and leaves the recorder without an active trip; if
  it says yes and both repositories succeed, the point is submitted under the new trip's
  identifier and becomes the last point.
\<close>

theorem trip_change_resets_trip_only:
  assumes "fetched r = Inr o'" and "truthy (o' K_gpsAlive)" and "truthy (o' K_recordTripIDA)"
    and "recordingTripA st = Some t"
    and "\<not> loose_eq (ToNumber e) (o' K_recordTripIDA) (trip_tripID t)"
  shows "run e st r = run e (st\<lparr>recordingTripA := None\<rparr>) r
    \<and> (\<forall>l. lastRecordedDataA st = Some l
          \<and> pointNeedsUpdate e (Some l) (Some (transformIntoTripPoint JNull o')) = Inr False
        \<longrightarrow> run e st r = (st\<lparr>recordingTripA := None\<rparr>, [SetTimeout (interval e)]))
    \<and> (\<forall>l t' p. lastRecordedDataA st = Some l
          \<and> pointNeedsUpdate e (Some l) (Some (transformIntoTripPoint JNull o')) = Inr True
          \<and> foundTrip r = Inr t' \<and> created r = Inr p
        \<longrightarrow> fst (run e st r) = st\<lparr>recordingTripA := Some t', lastRecordedDataA := Some p\<rparr>
          \<and> PointCreate ((transformIntoTripPoint JNull o')\<lparr>tripID := trip_tripID t'\<rparr>)
              \<in> set (snd (run e st r)))"
  using assms
  by (simp add: run_def Let_def createPoint_def)

text \<open>
  The amended claim at a concrete input: trip \<^verbatim>\<open>a\<close> is active with a last point at
  (47, 8), the store asks for trip \<^verbatim>\<open>b\<close> and the vehicle speed has changed, so the
  predicate holds against the old point and the new point is recorded under trip \<^verbatim>\<open>b\<close>.
\<close>

theorem trip_change_resets_trip_only_witness:
  "fetched \<lparr> fetched = Inr (demo_snapshot (JStr ''1'') (JStr ''b'') ''47'' ''8'' ''20''),
             foundTrip = Inr (Trip (JStr ''b'')),
             created = Inr (demo_point ''b'' ''47'' ''8'' ''20'') \<rparr>
     = Inr (demo_snapshot (JStr ''1'') (JStr ''b'') ''47'' ''8'' ''20'')
   \<and> truthy (demo_snapshot (JStr ''1'') (JStr ''b'') ''47'' ''8'' ''20'' K_gpsAlive)
   \<and> truthy (demo_snapshot (JStr ''1'') (JStr ''b'') ''47'' ''8'' ''20'' K_recordTripIDA)
   \<and> recordingTripA (demo_state (Some (JStr ''a'')) (Some (demo_point ''a'' ''47'' ''8'' ''10'')))
       = Some (Trip (JStr ''a''))
   \<and> \<not> loose_eq (ToNumber demo_env)
         (demo_snapshot (JStr ''1'') (JStr ''b'') ''47'' ''8'' ''20'' K_recordTripIDA)
         (trip_tripID (Trip (JStr ''a'')))
   \<and> pointNeedsUpdate demo_env (Some (demo_point ''a'' ''47'' ''8'' ''10''))
        (Some (transformIntoTripPoint JNull
           (demo_snapshot (JStr ''1'') (JStr ''b'') ''47'' ''8'' ''20''))) = Inr True
   \<and> fst (run demo_env
        (demo_state (Some (JStr ''a'')) (Some (demo_point ''a'' ''47'' ''8'' ''10'')))
        \<lparr> fetched = Inr (demo_snapshot (JStr ''1'') (JStr ''b'') ''47'' ''8'' ''20''),
          foundTrip = Inr (Trip (JStr ''b'')),
          created = Inr (demo_point ''b'' ''47'' ''8'' ''20'') \<rparr>)
       = demo_state (Some (JStr ''b'')) (Some (demo_point ''b'' ''47'' ''8'' ''20''))"
proof -
  let ?o = "demo_snapshot (JStr ''1'') (JStr ''b'') ''47'' ''8'' ''20''"
  let ?r = "\<lparr> fetched = Inr ?o, foundTrip = Inr (Trip (JStr ''b'')),
             created = Inr (demo_point ''b'' ''47'' ''8'' ''20'') \<rparr>"
  let ?st = "demo_state (Some (JStr ''a'')) (Some (demo_point ''a'' ''47'' ''8'' ''10''))"
  have h1: "fetched ?r = Inr ?o" by simp
  have h2: "truthy (?o K_gpsAlive)" by (simp add: demo_snapshot_def)
  have h3: "truthy (?o K_recordTripIDA)" by (simp add: demo_snapshot_def)
  have h4: "recordingTripA ?st = Some (Trip (JStr ''a''))" by (simp add: demo_state_def)
  have h5: "\<not> loose_eq (ToNumber demo_env) (?o K_recordTripIDA) (trip_tripID (Trip (JStr ''a'')))"
    by (simp add: demo_snapshot_def)
  have h6: "lastRecordedDataA ?st = Some (demo_point ''a'' ''47'' ''8'' ''10'')"
    by (simp add: demo_state_def)
  have h7: "pointNeedsUpdate demo_env (Some (demo_point ''a'' ''47'' ''8'' ''10''))
              (Some (transformIntoTripPoint JNull ?o)) = Inr True"
    by (simp add: eval_defs demo_defs)
  have h8: "foundTrip ?r = Inr (Trip (JStr ''b''))"
    "created ?r = Inr (demo_point ''b'' ''47'' ''8'' ''20'')"
    by simp_all
  have "fst (run demo_env ?st ?r)
      = ?st\<lparr>recordingTripA := Some (Trip (JStr ''b'')),
            lastRecordedDataA := Some (demo_point ''b'' ''47'' ''8'' ''20'')\<rparr>"
    using conjunct2 [OF conjunct2 [OF trip_change_resets_trip_only [OF h1 h2 h3 h4 h5]]] h6 h7 h8
    by blast
  then show ?thesis
    using h1 h2 h3 h4 h5 h7 by (simp add: demo_state_def)
qed

text \<open>
  Claim C3: on a cycle where the GPS liveness flag is truthy, a requested trip
  identifier is present and no last recorded point exists, the loop goes on to persist
  the point without asking the predicate. Provided the trip is resolved (it is already
  active, or \<^verbatim>\<open>Trip.findOrCreate\<close> succeeds), \<^verbatim>\<open>TripPoint.create\<close> is called with
  the snapshot's position, whatever that position is, and when the call succeeds the
  created row becomes the last recorded point.
\<close>

theorem first_point_bypasses_predicate:
  assumes f: "fetched r = Inr o'" and a: "truthy (o' K_gpsAlive)"
    and i: "truthy (o' K_recordTripIDA)"
    and l: "lastRecordedDataA st = None"
    and t: "(\<exists>t. recordingTripA st = Some t
            \<and> loose_eq (ToNumber e) (o' K_recordTripIDA) (trip_tripID t))
         \<or> (\<exists>t. foundTrip r = Inr t)"
  shows "(\<exists>pt. PointCreate pt \<in> set (snd (run e st r))
            \<and> latitude pt = nanToNull (o' K_latitude)
            \<and> longitude pt = nanToNull (o' K_longitude))
    \<and> (\<forall>p. created r = Inr p \<longrightarrow> lastRecordedDataA (fst (run e st r)) = Some p)"
proof -
  let ?new = "\<lambda>t'. (transformIntoTripPoint JNull o')\<lparr>tripID := trip_tripID t'\<rparr>"
  consider (active) t where "recordingTripA st = Some t"
      and "loose_eq (ToNumber e) (o' K_recordTripIDA) (trip_tripID t)"
    | (changed) t t' where "recordingTripA st = Some t"
      and "\<not> loose_eq (ToNumber e) (o' K_recordTripIDA) (trip_tripID t)"
      and "foundTrip r = Inr t'"
    | (idle) t' where "recordingTripA st = None" and "foundTrip r = Inr t'"
    using t by (cases "recordingTripA st") auto
  then show ?thesis
  proof cases
    case active
    then have "run e st r
        = createPoint e st (transformIntoTripPoint (trip_tripID t) o') (created r)"
      using f a i l by (simp add: run_def Let_def)
    then show ?thesis
      using createPoint_issues createPoint_ok_last transform_position by metis
  next
    case changed
    then have "run e st r =
        (fst (createPoint e (st\<lparr>recordingTripA := Some t'\<rparr>) (?new t') (created r)),
         [TripFindOrCreate (o' K_recordTripIDA), LiveSet K_recordTripIDA (trip_tripID t'),
          PersSet K_recordTripIDA (trip_tripID t')]
         @ snd (createPoint e (st\<lparr>recordingTripA := Some t'\<rparr>) (?new t') (created r)))"
      using f a i l by (simp add: run_def Let_def case_prod_unfold)
    then show ?thesis
      using createPoint_issues [of "?new t'"] createPoint_ok_last
        transform_position [of JNull o']
      by (auto intro!: exI [of _ "?new t'"])
  next
    case idle
    then have "run e st r =
        (fst (createPoint e (st\<lparr>recordingTripA := Some t'\<rparr>) (?new t') (created r)),
         [TripFindOrCreate (o' K_recordTripIDA), LiveSet K_recordTripIDA (trip_tripID t'),
          PersSet K_recordTripIDA (trip_tripID t')]
         @ snd (createPoint e (st\<lparr>recordingTripA := Some t'\<rparr>) (?new t') (created r)))"
      using f a i l by (simp add: run_def Let_def case_prod_unfold)
    then show ?thesis
      using createPoint_issues [of "?new t'"] createPoint_ok_last
        transform_position [of JNull o']
      by (auto intro!: exI [of _ "?new t'"])
  qed
qed

text \<open>
  A zero/zero fix as the first point of a trip: the predicate, had it been asked, would
  have said no, and the point is recorded all the same.
\<close>

theorem first_point_bypasses_predicate_witness:
  "pointNeedsUpdate demo_env None (Some (demo_point ''a'' ''0'' ''0'' ''10'')) = Inr False
   \<and> (\<exists>pt. PointCreate pt
          \<in> set (snd (run demo_env (demo_state None None)
              \<lparr> fetched = Inr (demo_snapshot (JStr ''1'') (JStr ''a'') ''0'' ''0'' ''10''),
                foundTrip = Inr (Trip (JStr ''a'')),
                created = Inr (demo_point ''a'' ''0'' ''0'' ''10'') \<rparr>))
        \<and> latitude pt = JStr ''0'' \<and> longitude pt = JStr ''0'')
   \<and> lastRecordedDataA (fst (run demo_env (demo_state None None)
        \<lparr> fetched = Inr (demo_snapshot (JStr ''1'') (JStr ''a'') ''0'' ''0'' ''10''),
          foundTrip = Inr (Trip (JStr ''a'')),
          created = Inr (demo_point ''a'' ''0'' ''0'' ''10'') \<rparr>))
     = Some (demo_point ''a'' ''0'' ''0'' ''10'')"
proof -
  let ?o = "demo_snapshot (JStr ''1'') (JStr ''a'') ''0'' ''0'' ''10''"
  let ?r = "\<lparr> fetched = Inr ?o, foundTrip = Inr (Trip (JStr ''a'')),
             created = Inr (demo_point ''a'' ''0'' ''0'' ''10'') \<rparr>"
  have h1: "fetched ?r = Inr ?o" by simp
  have h2: "truthy (?o K_gpsAlive)" by (simp add: demo_snapshot_def)
  have h3: "truthy (?o K_recordTripIDA)" by (simp add: demo_snapshot_def)
  have h4: "lastRecordedDataA (demo_state None None) = None" by (simp add: demo_state_def)
  have h5: "(\<exists>t. recordingTripA (demo_state None None) = Some t
               \<and> loose_eq (ToNumber demo_env) (?o K_recordTripIDA) (trip_tripID t))
            \<or> (\<exists>t. foundTrip ?r = Inr t)"
    by simp
  have h6: "nanToNull (?o K_latitude) = JStr ''0''" "nanToNull (?o K_longitude) = JStr ''0''"
    by (simp_all add: demo_snapshot_def nanToNull_def)
  have h7: "pointNeedsUpdate demo_env None (Some (demo_point ''a'' ''0'' ''0'' ''10'')) = Inr False"
    by (simp add: eval_defs demo_defs)
  show ?thesis
    using first_point_bypasses_predicate [OF h1 h2 h3 h4 h5] h6 h7 by simp
qed

text \<open>
  Claim C8: when \<^verbatim>\<open>TripPoint.create\<close> was called and its promise is rejected, the last
  recorded point is the one the cycle started with, and the cycle ends by logging
  \<^verbatim>\<open>Failed to create Point\<close> and calling \<^verbatim>\<open>setTimeout(run, interval)\<close>.
\<close>

theorem point_persistence_failure_keeps_last_point:
  assumes "PointCreate pt \<in> set (snd (run e st r))" and "created r = Inl err"
  shows "lastRecordedDataA (fst (run e st r)) = lastRecordedDataA st
    \<and> (\<exists>pre. snd (run e st r)
          = pre @ [PointCreate pt, LogError PointCreateFailed, SetTimeout (interval e)])"
  using assms
  by (auto simp add: run_def Let_def createPoint_def
      split: option.splits sum.splits bool.splits prod.splits if_splits)

theorem point_persistence_failure_keeps_last_point_witness:
  "lastRecordedDataA (fst (run demo_env
      (demo_state (Some (JStr ''a'')) (Some (demo_point ''a'' ''47'' ''8'' ''10'')))
      \<lparr> fetched = Inr (demo_snapshot (JStr ''1'') (JStr ''a'') ''47'' ''8'' ''20''),
        foundTrip = Inr (Trip (JStr ''a'')), created = Inl ''database is down'' \<rparr>))
     = Some (demo_point ''a'' ''47'' ''8'' ''10'')
   \<and> snd (run demo_env
      (demo_state (Some (JStr ''a'')) (Some (demo_point ''a'' ''47'' ''8'' ''10'')))
      \<lparr> fetched = Inr (demo_snapshot (JStr ''1'') (JStr ''a'') ''47'' ''8'' ''20''),
        foundTrip = Inr (Trip (JStr ''a'')), created = Inl ''database is down'' \<rparr>)
     = [PointCreate (demo_point ''a'' ''47'' ''8'' ''20''), LogError PointCreateFailed,
        SetTimeout 1000]"
proof -
  let ?r = "\<lparr> fetched = Inr (demo_snapshot (JStr ''1'') (JStr ''a'') ''47'' ''8'' ''20''),
             foundTrip = Inr (Trip (JStr ''a'')), created = Inl ''database is down'' \<rparr>"
  let ?st = "demo_state (Some (JStr ''a'')) (Some (demo_point ''a'' ''47'' ''8'' ''10''))"
  have effs: "snd (run demo_env ?st ?r)
      = [PointCreate (demo_point ''a'' ''47'' ''8'' ''20''), LogError PointCreateFailed,
         SetTimeout 1000]"
    by (simp add: eval_defs demo_defs)
  have h1: "PointCreate (demo_point ''a'' ''47'' ''8'' ''20'') \<in> set (snd (run demo_env ?st ?r))"
    by (simp add: effs)
  have h2: "created ?r = Inl ''database is down''" by simp
  have "lastRecordedDataA (fst (run demo_env ?st ?r)) = lastRecordedDataA ?st"
    using point_persistence_failure_keeps_last_point [OF h1 h2] by simp
  then show ?thesis using effs by (simp add: demo_state_def)
qed

text \<open>
  Claim C9: on a cycle whose snapshot was fetched and in which the GPS liveness flag is
  falsy or the requested trip identifier is absent (falsy), the recording state is
  unchanged and the only effect is \<^verbatim>\<open>setTimeout(run, interval)\<close>: no repository is
  called and nothing is written to either store.
\<close>

theorem inactive_cycle_is_noop:
  assumes "fetched r = Inr o'"
    and "\<not> truthy (o' K_gpsAlive) \<or> \<not> truthy (o' K_recordTripIDA)"
  shows "run e st r = (st, [SetTimeout (interval e)])"
  using assms by (auto simp add: run_def)

theorem inactive_cycle_is_noop_witness:
  "\<not> truthy (demo_snapshot (JStr ''1'') JNull ''47'' ''8'' ''20'' K_recordTripIDA)
   \<and> run demo_env
       (demo_state (Some (JStr ''a'')) (Some (demo_point ''a'' ''47'' ''8'' ''10'')))
       \<lparr> fetched = Inr (demo_snapshot (JStr ''1'') JNull ''47'' ''8'' ''20''),
         foundTrip = Inr (Trip (JStr ''a'')),
         created = Inr (demo_point ''a'' ''47'' ''8'' ''20'') \<rparr>
     = (demo_state (Some (JStr ''a'')) (Some (demo_point ''a'' ''47'' ''8'' ''10'')),
        [SetTimeout 1000])"
proof -
  let ?o = "demo_snapshot (JStr ''1'') JNull ''47'' ''8'' ''20''"
  let ?r = "\<lparr> fetched = Inr ?o, foundTrip = Inr (Trip (JStr ''a'')),
             created = Inr (demo_point ''a'' ''47'' ''8'' ''20'') \<rparr>"
  have h1: "fetched ?r = Inr ?o" by simp
  have h2: "\<not> truthy (?o K_gpsAlive) \<or> \<not> truthy (?o K_recordTripIDA)"
    by (simp add: demo_snapshot_def)
  show ?thesis
    using inactive_cycle_is_noop [OF h1 h2, where e = demo_env
        and st = "demo_state (Some (JStr ''a'')) (Some (demo_point ''a'' ''47'' ''8'' ''10''))"] by (simp add: demo_snapshot_def demo_env_def)
qed

section \<open>The significance predicate\<close>

text \<open>
  Claim C4: whenever the current point's latitude and longitude both equal 0
  (\<^verbatim>\<open>== 0\<close>), \<^verbatim>\<open>pointNeedsUpdate\<close> returns false, whether the previous point is
  absent or present; and with both arguments absent it returns false as well.
\<close>

theorem pointNeedsUpdate_zero_fix:
  "(eq_zero e (latitude c) \<and> eq_zero e (longitude c)
      \<longrightarrow> pointNeedsUpdate e prev (Some c) = Inr False)
   \<and> pointNeedsUpdate e None None = Inr False"
  by (simp add: pointNeedsUpdate_def)

theorem pointNeedsUpdate_zero_fix_witness:
  "eq_zero demo_env (latitude (demo_point ''a'' ''0'' ''0'' ''20''))
   \<and> eq_zero demo_env (longitude (demo_point ''a'' ''0'' ''0'' ''20''))
   \<and> pointNeedsUpdate demo_env None (Some (demo_point ''a'' ''0'' ''0'' ''20'')) = Inr False
   \<and> pointNeedsUpdate demo_env (Some (demo_point ''a'' ''47'' ''8'' ''10''))
        (Some (demo_point ''a'' ''0'' ''0'' ''20'')) = Inr False"
proof -
  have z: "eq_zero demo_env (latitude (demo_point ''a'' ''0'' ''0'' ''20''))
      \<and> eq_zero demo_env (longitude (demo_point ''a'' ''0'' ''0'' ''20''))"
    by (simp add: eq_zero_def demo_defs)
  show ?thesis
    using z
      pointNeedsUpdate_zero_fix [where e = demo_env
        and c = "demo_point ''a'' ''0'' ''0'' ''20''" and prev = None]
      pointNeedsUpdate_zero_fix [where e = demo_env
        and c = "demo_point ''a'' ''0'' ''0'' ''20''"
        and prev = "Some (demo_point ''a'' ''47'' ''8'' ''10'')"]
    by simp
qed

text \<open>
  Claim C5 says that with an unchanged position a differing vehicle speed always gives
  true. It does not when the unchanged position is zero/zero: line 98 returns false
  before the speeds are compared. Such a previous point exists, since the first point of
  a trip is recorded without asking the predicate.
\<close>

theorem same_position_speed_change_counterexample:
  "strict_eq (latitude (demo_point ''a'' ''0'' ''0'' ''10''))
     (latitude (demo_point ''a'' ''0'' ''0'' ''20''))
   \<and> strict_eq (longitude (demo_point ''a'' ''0'' ''0'' ''10''))
       (longitude (demo_point ''a'' ''0'' ''0'' ''20''))
   \<and> \<not> strict_eq (vehicleSpeed (demo_point ''a'' ''0'' ''0'' ''10''))
         (vehicleSpeed (demo_point ''a'' ''0'' ''0'' ''20''))
   \<and> pointNeedsUpdate demo_env (Some (demo_point ''a'' ''0'' ''0'' ''10''))
        (Some (demo_point ''a'' ''0'' ''0'' ''20'')) = Inr False"
  by (simp add: pointNeedsUpdate_def eq_zero_def demo_defs)

text \<open>
  Claim C5, amended. For a present previous point and a current point whose latitude
  and longitude are identical (\<^verbatim>\<open>===\<close>) to the previous ones, \<^verbatim>\<open>pointNeedsUpdate\<close>
  returns true exactly when the vehicle speeds differ (\<^verbatim>\<open>!==\<close>) and the current
  position is not zero/zero; so it returns false when the speeds are identical, and also
  when the position is zero/zero.
\<close>

theorem pointNeedsUpdate_same_position:
  assumes "strict_eq (latitude p) (latitude c)" and "strict_eq (longitude p) (longitude c)"
  shows "pointNeedsUpdate e (Some p) (Some c)
    = Inr (\<not> strict_eq (vehicleSpeed p) (vehicleSpeed c)
           \<and> \<not> (eq_zero e (latitude c) \<and> eq_zero e (longitude c)))"
  using assms by (simp add: pointNeedsUpdate_def)

theorem pointNeedsUpdate_same_position_witness:
  "strict_eq (latitude (demo_point ''a'' ''47'' ''8'' ''10''))
     (latitude (demo_point ''a'' ''47'' ''8'' ''20''))
   \<and> strict_eq (longitude (demo_point ''a'' ''47'' ''8'' ''10''))
       (longitude (demo_point ''a'' ''47'' ''8'' ''20''))
   \<and> pointNeedsUpdate demo_env (Some (demo_point ''a'' ''47'' ''8'' ''10''))
        (Some (demo_point ''a'' ''47'' ''8'' ''20'')) = Inr True
   \<and> pointNeedsUpdate demo_env (Some (demo_point ''a'' ''47'' ''8'' ''10''))
        (Some (demo_point ''a'' ''47'' ''8'' ''10'')) = Inr False"
proof -
  have h1: "strict_eq (latitude (demo_point ''a'' ''47'' ''8'' ''10''))
      (latitude (demo_point ''a'' ''47'' ''8'' ''20''))"
    and h2: "strict_eq (longitude (demo_point ''a'' ''47'' ''8'' ''10''))
      (longitude (demo_point ''a'' ''47'' ''8'' ''20''))"
    and h3: "strict_eq (latitude (demo_point ''a'' ''47'' ''8'' ''10''))
      (latitude (demo_point ''a'' ''47'' ''8'' ''10''))"
    and h4: "strict_eq (longitude (demo_point ''a'' ''47'' ''8'' ''10''))
      (longitude (demo_point ''a'' ''47'' ''8'' ''10''))"
    by (simp_all add: demo_point_def)
  show ?thesis
    using h1 h2
      pointNeedsUpdate_same_position [OF h1 h2, where e = demo_env]
      pointNeedsUpdate_same_position [OF h3 h4, where e = demo_env]
    by (simp add: eq_zero_def demo_defs)
qed



text \<open>
  Claim C10: \<^verbatim>\<open>pointNeedsUpdate\<close> is not total. With the previous point absent and
  exactly one of the current latitude and longitude equal to 0, lines 93-98 do not
  return and line 101 reads \<^verbatim>\<open>prev.vehicleSpeed\<close> of an absent \<^verbatim>\<open>prev\<close>: a TypeError.
\<close>

theorem pointNeedsUpdate_throws_without_prev:
  assumes "eq_zero e (latitude c) \<noteq> eq_zero e (longitude c)"
  shows "pointNeedsUpdate e None (Some c) = Inl TypeError"
  using assms by (auto simp add: pointNeedsUpdate_def)

theorem pointNeedsUpdate_throws_without_prev_witness:
  "eq_zero demo_env (latitude (demo_point ''a'' ''0'' ''8'' ''10''))
     \<noteq> eq_zero demo_env (longitude (demo_point ''a'' ''0'' ''8'' ''10''))
   \<and> pointNeedsUpdate demo_env None (Some (demo_point ''a'' ''0'' ''8'' ''10''))
       = Inl TypeError"
proof -
  have h: "eq_zero demo_env (latitude (demo_point ''a'' ''0'' ''8'' ''10''))
      \<noteq> eq_zero demo_env (longitude (demo_point ''a'' ''0'' ''8'' ''10''))"
    by (simp add: eq_zero_def demo_defs)
  show ?thesis
    using h pointNeedsUpdate_throws_without_prev [OF h] by simp
qed

section \<open>The odometer accumulator\<close>



end
